theory Spec2Isabelle
  imports Complex_Main
begin

section \<open>Strings\<close>

text \<open>
  A Python string is modelled as a \<^typ>\<open>string\<close> whose characters are the code points 0
  to 255 (\<open>CHR 0xA0\<close> is the no-break space U+00A0, \<open>CHR 0xE9\<close> the letter U+00E9).
  Text with a code point above U+00FF has no value in this type and is outside the
  model. On the code points 0 to 255 the methods \<^verbatim>\<open>str.strip\<close>, \<^verbatim>\<open>str.lower\<close> and
  \<^verbatim>\<open>str.splitlines\<close> of the Python library are modelled in full.
\<close>

definition is_space :: "char \<Rightarrow> bool" where
  \<comment> \<open>\<^verbatim>\<open>str.isspace\<close> below U+0100: TAB, LF, VT, FF, CR, FS, GS, RS, US, the blank,
      NEL (U+0085) and the no-break space (U+00A0).\<close>
  "is_space c \<longleftrightarrow> c \<in> set [CHR 0x09, CHR 0x0A, CHR 0x0B, CHR 0x0C, CHR 0x0D,
                          CHR 0x1C, CHR 0x1D, CHR 0x1E, CHR 0x1F, CHR 0x20,
                          CHR 0x85, CHR 0xA0]"

definition is_linebreak :: "char \<Rightarrow> bool" where
  \<comment> \<open>the line boundaries of \<^verbatim>\<open>str.splitlines\<close> below U+0100: LF, VT, FF, CR, FS, GS, RS
      and NEL (U+0085).\<close>
  "is_linebreak c \<longleftrightarrow> c \<in> set [CHR 0x0A, CHR 0x0B, CHR 0x0C, CHR 0x0D,
                              CHR 0x1C, CHR 0x1D, CHR 0x1E, CHR 0x85]"

definition strip :: "string \<Rightarrow> string" where
  "strip s = rev (dropWhile is_space (rev (dropWhile is_space s)))"

definition upper_letters :: string where
  \<comment> \<open>the upper-case letters below U+0100: A to Z, U+00C0 to U+00D6, U+00D8 to U+00DE\<close>
  "upper_letters =
     ''ABCDEFGHIJKLMNOPQRSTUVWXYZ''
     @ [CHR 0xC0, CHR 0xC1, CHR 0xC2, CHR 0xC3, CHR 0xC4, CHR 0xC5, CHR 0xC6, CHR 0xC7,
        CHR 0xC8, CHR 0xC9, CHR 0xCA, CHR 0xCB, CHR 0xCC, CHR 0xCD, CHR 0xCE, CHR 0xCF,
        CHR 0xD0, CHR 0xD1, CHR 0xD2, CHR 0xD3, CHR 0xD4, CHR 0xD5, CHR 0xD6,
        CHR 0xD8, CHR 0xD9, CHR 0xDA, CHR 0xDB, CHR 0xDC, CHR 0xDD, CHR 0xDE]"

definition lower_letters :: string where
  \<comment> \<open>their lower-case forms, each 32 code points above: a to z, U+00E0 to U+00F6,
      U+00F8 to U+00FE\<close>
  "lower_letters =
     ''abcdefghijklmnopqrstuvwxyz''
     @ [CHR 0xE0, CHR 0xE1, CHR 0xE2, CHR 0xE3, CHR 0xE4, CHR 0xE5, CHR 0xE6, CHR 0xE7,
        CHR 0xE8, CHR 0xE9, CHR 0xEA, CHR 0xEB, CHR 0xEC, CHR 0xED, CHR 0xEE, CHR 0xEF,
        CHR 0xF0, CHR 0xF1, CHR 0xF2, CHR 0xF3, CHR 0xF4, CHR 0xF5, CHR 0xF6,
        CHR 0xF8, CHR 0xF9, CHR 0xFA, CHR 0xFB, CHR 0xFC, CHR 0xFD, CHR 0xFE]"

definition lower_char :: "char \<Rightarrow> char" where
  \<comment> \<open>\<^verbatim>\<open>str.lower\<close> below U+0100: an upper-case letter becomes its lower-case form, nothing
      else changes.\<close>
  "lower_char c =
     (case map_of (zip upper_letters lower_letters) c of
        Some d \<Rightarrow> d
      | None \<Rightarrow> c)"

definition lower :: "string \<Rightarrow> string" where
  "lower s = map lower_char s"

text \<open>
  \<^verbatim>\<open>str.splitlines()\<close>: the text is cut at every line boundary, CR LF counting as one
  boundary; the boundaries are not kept and a boundary at the very end opens no new line.
  The first argument is the line read so far.
\<close>

fun splitlines_from :: "string \<Rightarrow> string \<Rightarrow> string list" where
  "splitlines_from cur [] = (if cur = [] then [] else [cur])"
| "splitlines_from cur (c # cs) =
     (if c = CHR 0x0D then
        (case cs of
           [] \<Rightarrow> [cur]
         | d # ds \<Rightarrow> if d = CHR 0x0A then cur # splitlines_from [] ds
                    else cur # splitlines_from [] (d # ds))
      else if is_linebreak c then cur # splitlines_from [] cs
      else splitlines_from (cur @ [c]) cs)"

definition splitlines :: "string \<Rightarrow> string list" where
  "splitlines text = splitlines_from [] text"

section \<open>Parsing the domains input (\<^verbatim>\<open>App._parse_domains\<close>)\<close>

text \<open>
  The loop over \<^verbatim>\<open>items\<close>, with the set \<^verbatim>\<open>seen\<close> and the list \<^verbatim>\<open>out\<close> as accumulators.
\<close>

fun dedup_loop :: "string list \<Rightarrow> string set \<Rightarrow> string list \<Rightarrow> string list" where
  "dedup_loop [] seen out = out"
| "dedup_loop (x # xs) seen out =
     (if x \<notin> seen then dedup_loop xs (insert x seen) (out @ [x])
      else dedup_loop xs seen out)"

definition parse_domains :: "string \<Rightarrow> string list" where
  "parse_domains text =
     (let items = map strip (splitlines text);
          items = filter (\<lambda>x. x \<noteq> []) items
      in dedup_loop items {} [])"

section \<open>JSON values and their Python rendering\<close>

text \<open>
  A parsed JSON document, as \<^verbatim>\<open>resp.json()\<close> returns it. Python's \<^verbatim>\<open>None\<close> is \<open>JNull\<close>.
  An object keeps its members in order (the order shows in \<^verbatim>\<open>str\<close>); a parsed object
  has each key once, and a member is looked up with \<open>map_of\<close>. Numbers are integers:
  the program reads no number but the error codes, and floating-point numbers are left
  out of the model.
\<close>

datatype json =
    JNull
  | JBool bool
  | JInt int
  | JStr string
  | JList "json list"
  | JObj "(string \<times> json) list"

text \<open>
  What the program raises. \<open>CloudflareAPIError\<close> carries its message; every other
  exception (of the Python library or of \<^verbatim>\<open>requests\<close>) carries the name of its class.
\<close>

datatype error =
    CloudflareAPIError string
  | OtherException string

fun truthy :: "json \<Rightarrow> bool" where
  "truthy JNull = False"
| "truthy (JBool b) = b"
| "truthy (JInt i) = (i \<noteq> 0)"
| "truthy (JStr s) = (s \<noteq> [])"
| "truthy (JList xs) = (xs \<noteq> [])"
| "truthy (JObj kvs) = (kvs \<noteq> [])"

definition digit_char :: "nat \<Rightarrow> char" where
  "digit_char d = ''0123456789abcdef'' ! (d mod 16)"

fun digits_nat :: "nat \<Rightarrow> string" where
  "digits_nat n =
     (if n < 10 then [digit_char n] else digits_nat (n div 10) @ [digit_char (n mod 10)])"

declare digits_nat.simps [simp del]

definition str_int :: "int \<Rightarrow> string" where
  "str_int i = (if i < 0 then ''-'' @ digits_nat (nat (- i)) else digits_nat (nat i))"

definition join :: "string \<Rightarrow> string list \<Rightarrow> string" where
  \<comment> \<open>\<^verbatim>\<open>sep.join(parts)\<close>\<close>
  "join sep parts = concat (case parts of [] \<Rightarrow> [] | p # ps \<Rightarrow> p # map (\<lambda>q. sep @ q) ps)"

text \<open>
  \<^verbatim>\<open>repr\<close> of a string: single quotes, unless the string has a single quote and no
  double quote; the backslash, the chosen quote, LF, CR and TAB escaped, every other
  character that is not printable (below U+0020, U+007F to U+00A0, U+00AD) written
  \<^verbatim>\<open>\xNN\<close>.
\<close>

definition repr_char :: "char \<Rightarrow> char \<Rightarrow> string" where
  "repr_char q c =
     (if c = CHR 0x5C then [CHR 0x5C, CHR 0x5C]
      else if c = q then [CHR 0x5C, q]
      else if c = CHR 0x0A then [CHR 0x5C, CHR ''n'']
      else if c = CHR 0x0D then [CHR 0x5C, CHR ''r'']
      else if c = CHR 0x09 then [CHR 0x5C, CHR ''t'']
      else if (of_char c :: nat) < 32 \<or> (127 \<le> (of_char c :: nat) \<and> (of_char c :: nat) \<le> 160)
              \<or> c = CHR 0xAD then
        [CHR 0x5C, CHR ''x'', digit_char (of_char c div 16), digit_char (of_char c mod 16)]
      else [c])"

definition repr_str :: "string \<Rightarrow> string" where
  "repr_str s =
     (let q = (if CHR 0x27 \<in> set s \<and> CHR 0x22 \<notin> set s then CHR 0x22 else CHR 0x27)
      in [q] @ concat (map (repr_char q) s) @ [q])"

fun py_repr :: "json \<Rightarrow> string"
  and repr_items :: "json list \<Rightarrow> string list"
  and repr_members :: "(string \<times> json) list \<Rightarrow> string list" where
  "py_repr JNull = ''None''"
| "py_repr (JBool b) = (if b then ''True'' else ''False'')"
| "py_repr (JInt i) = str_int i"
| "py_repr (JStr s) = repr_str s"
| "py_repr (JList xs) = ''['' @ join '', '' (repr_items xs) @ '']''"
| "py_repr (JObj kvs) = ''{'' @ join '', '' (repr_members kvs) @ ''}''"
| "repr_items [] = []"
| "repr_items (x # xs) = py_repr x # repr_items xs"
| "repr_members [] = []"
| "repr_members ((k, v) # kvs) = (repr_str k @ '': '' @ py_repr v) # repr_members kvs"

definition py_str :: "json \<Rightarrow> string" where
  \<comment> \<open>\<^verbatim>\<open>str(x)\<close>, also what an f-string writes for \<^verbatim>\<open>{x}\<close>\<close>
  "py_str j = (case j of JStr s \<Rightarrow> s | _ \<Rightarrow> py_repr j)"

definition dict_get :: "json \<Rightarrow> string \<Rightarrow> json \<Rightarrow> error + json" where
  \<comment> \<open>\<^verbatim>\<open>x.get(key, default)\<close>: only a dict has it.\<close>
  "dict_get x key dflt =
     (case x of
        JObj kvs \<Rightarrow> Inr (case map_of kvs key of Some v \<Rightarrow> v | None \<Rightarrow> dflt)
      | _ \<Rightarrow> Inl (OtherException ''AttributeError''))"

definition py_iter :: "json \<Rightarrow> error + json list" where
  \<comment> \<open>what \<^verbatim>\<open>for z in x\<close> runs over: the items of a list, the keys of a dict, the
      characters of a string; nothing else can be iterated.\<close>
  "py_iter x =
     (case x of
        JList xs \<Rightarrow> Inr xs
      | JObj kvs \<Rightarrow> Inr (map (\<lambda>kv. JStr (fst kv)) kvs)
      | JStr s \<Rightarrow> Inr (map (\<lambda>c. JStr [c]) s)
      | _ \<Rightarrow> Inl (OtherException ''TypeError''))"

section \<open>Composing the error message (\<^verbatim>\<open>CloudflareClient._format_error_message\<close>)\<close>

text \<open>The loop over \<^verbatim>\<open>data["errors"]\<close>, with the list \<^verbatim>\<open>parts\<close> as accumulator.\<close>

fun format_loop :: "json list \<Rightarrow> string list \<Rightarrow> error + string list" where
  "format_loop [] parts = Inr parts"
| "format_loop (err # rest) parts =
     (case dict_get err ''code'' JNull of
        Inl e \<Rightarrow> Inl e
      | Inr code \<Rightarrow>
          (case dict_get err ''message'' JNull of
             Inl e \<Rightarrow> Inl e
           | Inr msg \<Rightarrow>
               format_loop rest
                 (parts @ [if code \<noteq> JNull then py_str code @ '': '' @ py_str msg
                           else py_str msg])))"

definition format_error_message :: "json \<Rightarrow> int \<Rightarrow> error + string" where
  "format_error_message data status =
     (case data of
        JObj kvs \<Rightarrow>
          (case map_of kvs ''errors'' of
             Some errs \<Rightarrow>
               if truthy errs then
                 (case py_iter errs of
                    Inl e \<Rightarrow> Inl e
                  | Inr es \<Rightarrow>
                      (case format_loop es [] of
                         Inl e \<Rightarrow> Inl e
                       | Inr parts \<Rightarrow> Inr (join ''; '' parts)))
               else Inr (py_str data)
           | None \<Rightarrow> Inr (py_str data))
      | _ \<Rightarrow> Inr (py_str data))"

section \<open>The remote API and the world the program runs in\<close>

text \<open>
  One call of \<^verbatim>\<open>requests.request\<close> sends a request and either returns a response or
  raises (a connection error, a timeout). Of a response the program reads the status,
  the \<^verbatim>\<open>Retry-After\<close> header (\<^verbatim>\<open>resp.headers.get\<close>, \<open>None\<close> when the header is missing),
  the raw text and the parsed body (\<open>None\<close> when \<^verbatim>\<open>resp.json()\<close> raises).
\<close>

record request =
  req_method :: string
  req_url :: string
  req_headers :: "(string \<times> string) list"
  req_params :: "(string \<times> json) list option"
  req_json :: "json option"
  req_timeout :: int

record response =
  status_code :: int
  retry_after :: "string option"
  resp_text :: string
  resp_json :: "json option"

datatype event = Responds response | Raises error

definition resp_ok :: "response \<Rightarrow> bool" where
  \<comment> \<open>\<^verbatim>\<open>Response.ok\<close> of \<^verbatim>\<open>requests\<close>: false exactly for the statuses 400 to 599.\<close>
  "resp_ok r \<longleftrightarrow> \<not> (400 \<le> status_code r \<and> status_code r < 600)"

text \<open>A Python float, as \<^verbatim>\<open>float(s)\<close> may return it.\<close>

datatype pyfloat = Finite real | PosInf | NegInf | NaN

text \<open>
  The environment: the remote server answers each request from the history of all
  requests sent so far (the last one is the current request); \<open>py_float\<close> is Python's
  \<^verbatim>\<open>float\<close> on a string (\<open>None\<close> when it raises \<^verbatim>\<open>ValueError\<close>); \<open>clock n\<close> is what the
  call number \<open>n\<close> of \<^verbatim>\<open>time.time()\<close> returns. The arithmetic of the worker is on floats:
  \<open>fl x\<close> is the float nearest to the real number \<open>x\<close>, so that the difference of two
  floats \<open>a\<close> and \<open>b\<close> in the program is \<open>fl (a - b)\<close>, and so for the quotient and the
  product (results beyond the range of the floats are not modelled). \<open>format_eta n\<close> is
  \<^verbatim>\<open>time.strftime("%M:%S", time.gmtime(n))\<close>, which returns the text or raises, for the
  numbers of seconds that the platform cannot convert.
\<close>

record env =
  server :: "request list \<Rightarrow> event"
  py_float :: "string \<Rightarrow> pyfloat option"
  clock :: "nat \<Rightarrow> real"
  fl :: "real \<Rightarrow> real"
  format_eta :: "int \<Rightarrow> error + string"

text \<open>The lines the worker writes to the log pane, one constructor per message.\<close>

datatype log_line =
    StartingBulkDeletion
  | LookingUp nat nat string
  | NotFoundSkipping
  | FoundZone json
  | DeletedSuccessfully
  | FailedToDelete string
  | ApiErrorLine string
  | UnexpectedErrorLine error
  | AllDone

text \<open>
  The world records what the program did: the requests sent, the durations slept
  (\<^verbatim>\<open>time.sleep\<close>), the number of clock readings, the log lines, the values given to the
  progress bar and the texts given to the progress label.
\<close>

record world =
  reqs :: "request list"
  sleeps :: "real list"
  ticks :: nat
  logs :: "log_line list"
  bar :: "nat list"
  labels :: "string list"

definition time_time :: "env \<Rightarrow> world \<Rightarrow> real \<times> world" where
  "time_time E w = (clock E (ticks w), w\<lparr>ticks := ticks w + 1\<rparr>)"

definition sleep_accepts :: "real \<Rightarrow> bool" where
  \<comment> \<open>\<^verbatim>\<open>time.sleep\<close> takes a duration that is not negative and that, in nanoseconds and
      rounded to a float, is below \<open>2 ^ 63\<close> (about 9.22e9 seconds).\<close>
  "sleep_accepts r \<longleftrightarrow> 0 \<le> r \<and> r * 1000000000 < 2 ^ 63 - 512"

definition time_sleep :: "pyfloat \<Rightarrow> world \<Rightarrow> error + world" where
  \<comment> \<open>\<^verbatim>\<open>time.sleep\<close> refuses a negative duration and a NaN (\<^verbatim>\<open>ValueError\<close>), and a duration
      that does not fit, the infinite one too (\<^verbatim>\<open>OverflowError\<close>).\<close>
  "time_sleep d w =
     (case d of
        Finite r \<Rightarrow>
          if r < 0 then Inl (OtherException ''ValueError'')
          else if sleep_accepts r then Inr (w\<lparr>sleeps := sleeps w @ [r]\<rparr>)
          else Inl (OtherException ''OverflowError'')
      | PosInf \<Rightarrow> Inl (OtherException ''OverflowError'')
      | NegInf \<Rightarrow> Inl (OtherException ''ValueError'')
      | NaN \<Rightarrow> Inl (OtherException ''ValueError''))"

definition log_msg :: "log_line \<Rightarrow> world \<Rightarrow> world" where
  "log_msg l w = w\<lparr>logs := logs w @ [l]\<rparr>"

section \<open>The client (\<^verbatim>\<open>CloudflareClient\<close>)\<close>

record client =
  api_token :: "string option"
  email :: "string option"
  api_key :: "string option"
  base_url :: string
  timeout :: int
  max_retries :: int

definition present :: "string option \<Rightarrow> bool" where
  \<comment> \<open>truth value of an optional string: \<^verbatim>\<open>None\<close> and the empty string are false.\<close>
  "present s \<longleftrightarrow> (case s of None \<Rightarrow> False | Some v \<Rightarrow> v \<noteq> [])"

definition rstrip_slash :: "string \<Rightarrow> string" where
  "rstrip_slash s = rev (dropWhile (\<lambda>c. c = CHR ''/'') (rev s))"

definition client_init ::
  "string option \<Rightarrow> string option \<Rightarrow> string option \<Rightarrow> string \<Rightarrow> int \<Rightarrow> int \<Rightarrow> error + client" where
  "client_init tok em key url tmo retries =
     (if \<not> present tok \<and> \<not> (present em \<and> present key)
      then Inl (OtherException ''ValueError'')
      else Inr \<lparr>api_token = tok, email = em, api_key = key,
                base_url = rstrip_slash url, timeout = tmo, max_retries = retries\<rparr>)"

definition default_client :: "string option \<Rightarrow> string option \<Rightarrow> string option \<Rightarrow> error + client" where
  \<comment> \<open>the constructor with its default arguments\<close>
  "default_client tok em key =
     client_init tok em key ''https://api.cloudflare.com/client/v4'' 30 5"

definition headers :: "client \<Rightarrow> (string \<times> string) list" where
  "headers c =
     (if present (api_token c) then
        [(''Authorization'', ''Bearer '' @ (case api_token c of Some v \<Rightarrow> v | None \<Rightarrow> [])),
         (''Content-Type'', ''application/json'')]
      else
        [(''X-Auth-Email'', case email c of Some v \<Rightarrow> v | None \<Rightarrow> []),
         (''X-Auth-Key'', case api_key c of Some v \<Rightarrow> v | None \<Rightarrow> []),
         (''Content-Type'', ''application/json'')])"

definition wait_hint :: "env \<Rightarrow> response \<Rightarrow> real \<Rightarrow> error + pyfloat" where
  \<comment> \<open>\<^verbatim>\<open>float(retry_after) if retry_after else backoff\<close>\<close>
  "wait_hint E resp backoff =
     (case retry_after resp of
        None \<Rightarrow> Inr (Finite backoff)
      | Some h \<Rightarrow>
          if h = [] then Inr (Finite backoff)
          else (case py_float E h of
                  None \<Rightarrow> Inl (OtherException ''ValueError'')
                | Some f \<Rightarrow> Inr f))"

definition error_data :: "response \<Rightarrow> json" where
  \<comment> \<open>the body of a failed response, or the entry made of its raw text\<close>
  "error_data resp =
     (case resp_json resp of
        Some d \<Rightarrow> d
      | None \<Rightarrow> JObj [(''errors'', JList [JObj [(''message'', JStr (resp_text resp))]])])"

definition build_request ::
  "client \<Rightarrow> string \<Rightarrow> string \<Rightarrow> (string \<times> json) list option \<Rightarrow> json option \<Rightarrow> request" where
  \<comment> \<open>the arguments of \<^verbatim>\<open>requests.request\<close>\<close>
  "build_request c meth rpath params js =
     \<lparr>req_method = meth, req_url = base_url c @ rpath, req_headers = headers c,
      req_params = params, req_json = js, req_timeout = timeout c\<rparr>"

text \<open>
  \<^verbatim>\<open>CloudflareClient._request\<close>: the loop, with \<^verbatim>\<open>retry\<close> and \<^verbatim>\<open>backoff\<close> as arguments.
\<close>

function request_loop ::
  "env \<Rightarrow> client \<Rightarrow> string \<Rightarrow> string \<Rightarrow> (string \<times> json) list option \<Rightarrow> json option
     \<Rightarrow> int \<Rightarrow> real \<Rightarrow> world \<Rightarrow> (error + json) \<times> world" where
  "request_loop E c meth rpath params js retry backoff w =
     (let rq = build_request c meth rpath params js;
          w1 = w\<lparr>reqs := reqs w @ [rq]\<rparr>
      in case server E (reqs w1) of
           Raises e \<Rightarrow> (Inl e, w1)
         | Responds resp \<Rightarrow>
             if status_code resp = 429 then
               (case wait_hint E resp backoff of
                  Inl e \<Rightarrow> (Inl e, w1)
                | Inr wait_s \<Rightarrow>
                    if retry \<ge> max_retries c then
                      (Inl (CloudflareAPIError
                         (''Rate limited and max retries exceeded for '' @ meth @ '' '' @ rpath)),
                       w1)
                    else
                      (case time_sleep wait_s w1 of
                         Inl e \<Rightarrow> (Inl e, w1)
                       | Inr w2 \<Rightarrow>
                           request_loop E c meth rpath params js
                             (retry + 1) (min (backoff * 2) 30) w2))
             else if \<not> resp_ok resp then
               (case format_error_message (error_data resp) (status_code resp) of
                  Inl e \<Rightarrow> (Inl e, w1)
                | Inr message \<Rightarrow>
                    (Inl (CloudflareAPIError
                       (''HTTP '' @ str_int (status_code resp) @ '' for '' @ meth @ '' '' @ rpath
                          @ '': '' @ message)),
                     w1))
             else
               (case resp_json resp of
                  None \<Rightarrow> (Inl (OtherException ''JSONDecodeError''), w1)
                | Some data \<Rightarrow> (Inr data, w1)))"
  by pat_completeness auto
termination
  by (relation "measure (\<lambda>(E, c, meth, rpath, params, js, retry, backoff, w).
                  nat (max_retries c - retry))") auto

declare request_loop.simps [simp del]

definition request ::
  "env \<Rightarrow> client \<Rightarrow> string \<Rightarrow> string \<Rightarrow> (string \<times> json) list option \<Rightarrow> json option
     \<Rightarrow> world \<Rightarrow> (error + json) \<times> world" where
  \<comment> \<open>every call starts with \<^verbatim>\<open>retry = 0\<close> and \<^verbatim>\<open>backoff = 1.0\<close>\<close>
  "request E c meth rpath params js w = request_loop E c meth rpath params js 0 1 w"

text \<open>\<^verbatim>\<open>CloudflareClient.get_zone_by_name\<close>: the loop over the listed zones.\<close>

fun find_zone :: "json list \<Rightarrow> string \<Rightarrow> error + json option" where
  "find_zone [] domain = Inr None"
| "find_zone (z # zs) domain =
     (case dict_get z ''name'' (JStr []) of
        Inl e \<Rightarrow> Inl e
      | Inr nm \<Rightarrow>
          (case nm of
             JStr s \<Rightarrow> if lower s = lower (strip domain) then Inr (Some z) else find_zone zs domain
           | _ \<Rightarrow> Inl (OtherException ''AttributeError'')))"

definition get_zone_by_name ::
  "env \<Rightarrow> client \<Rightarrow> string \<Rightarrow> world \<Rightarrow> (error + json option) \<times> world" where
  "get_zone_by_name E c domain w =
     (let params = [(''name'', JStr (lower (strip domain))),
                    (''match'', JStr ''all''),
                    (''per_page'', JInt 50)]
      in case request E c ''GET'' ''/zones'' (Some params) None w of
           (Inl e, w1) \<Rightarrow> (Inl e, w1)
         | (Inr data, w1) \<Rightarrow>
             (let results = (case data of
                               JObj kvs \<Rightarrow> (case map_of kvs ''result'' of
                                              Some r \<Rightarrow> r | None \<Rightarrow> JList [])
                             | _ \<Rightarrow> JList [])
              in case py_iter results of
                   Inl e \<Rightarrow> (Inl e, w1)
                 | Inr zs \<Rightarrow> (find_zone zs domain, w1)))"

definition delete_zone ::
  "env \<Rightarrow> client \<Rightarrow> json \<Rightarrow> world \<Rightarrow> (error + bool \<times> string) \<times> world" where
  "delete_zone E c zone_id w =
     (case request E c ''DELETE'' (''/zones/'' @ py_str zone_id) None None w of
        (Inl e, w1) \<Rightarrow> (Inl e, w1)
      | (Inr data, w1) \<Rightarrow>
          (let success = (case data of
                            JObj kvs \<Rightarrow> (case map_of kvs ''success'' of
                                           Some v \<Rightarrow> truthy v | None \<Rightarrow> False)
                          | _ \<Rightarrow> False)
           in if success then (Inr (True, ''Deleted''), w1)
              else (case format_error_message data 200 of
                      Inl e \<Rightarrow> (Inl e, w1)
                    | Inr msg \<Rightarrow> (Inr (False, msg), w1))))"

section \<open>The batch worker (\<^verbatim>\<open>App._delete_worker\<close>)\<close>

definition MAX_BATCH :: nat where
  "MAX_BATCH = 10"

definition py_int :: "real \<Rightarrow> int" where
  \<comment> \<open>\<^verbatim>\<open>int(x)\<close> of a float: truncation towards zero\<close>
  "py_int x = (if x \<ge> 0 then \<lfloor>x\<rfloor> else \<lceil>x\<rceil>)"

text \<open>
  \<^verbatim>\<open>App._update_progress\<close>: the progress bar is set, then the label gets the count and
  the estimated time left. The result is the exception that left the function, if any.
\<close>

definition update_progress ::
  "env \<Rightarrow> nat \<Rightarrow> nat \<Rightarrow> real \<Rightarrow> world \<Rightarrow> error option \<times> world" where
  "update_progress E completed tot start_time w =
     (let w0 = w\<lparr>bar := bar w @ [completed]\<rparr>
      in if completed > 0 then
           (let (now, w1) = time_time E w0;
                elapsed = fl E (now - start_time);
                per_item = fl E (elapsed / real completed);
                remaining = max (int tot - int completed) 0;
                eta = py_int (fl E (per_item * real_of_int remaining))
            in case format_eta E eta of
                 Inl e \<Rightarrow> (Some e, w1)
               | Inr eta_str \<Rightarrow>
                   (None,
                    w1\<lparr>labels := labels w1
                         @ [str_int (int completed) @ ''/'' @ str_int (int tot)
                              @ '' completed. ETA: '' @ eta_str]\<rparr>))
         else (None, w0\<lparr>labels := labels w0 @ [''0/'' @ str_int (int tot) @ '' completed.'']\<rparr>))"

text \<open>
  The \<^verbatim>\<open>try\<close> block of one item. The result is the exception that left the block, if any;
  \<^verbatim>\<open>continue\<close> leaves the block with none.
\<close>

definition try_item :: "env \<Rightarrow> client \<Rightarrow> string \<Rightarrow> world \<Rightarrow> error option \<times> world" where
  "try_item E c domain w =
     (case get_zone_by_name E c domain w of
        (Inl e, w1) \<Rightarrow> (Some e, w1)
      | (Inr zone, w1) \<Rightarrow>
          (case zone of
             None \<Rightarrow> (None, log_msg NotFoundSkipping w1)
           | Some z \<Rightarrow>
               if \<not> truthy z then (None, log_msg NotFoundSkipping w1)
               else
                 (case dict_get z ''id'' JNull of
                    Inl e \<Rightarrow> (Some e, w1)
                  | Inr zone_id \<Rightarrow>
                      (case delete_zone E c zone_id (log_msg (FoundZone zone_id) w1) of
                         (Inl e, w2) \<Rightarrow> (Some e, w2)
                       | (Inr (ok, msg), w2) \<Rightarrow>
                           if ok then (None, log_msg DeletedSuccessfully w2)
                           else (None, log_msg (FailedToDelete msg) w2)))))"

definition except_item :: "error option \<Rightarrow> world \<Rightarrow> world" where
  \<comment> \<open>the two \<^verbatim>\<open>except\<close> clauses: every exception of the block is caught and logged\<close>
  "except_item exc w =
     (case exc of
        None \<Rightarrow> w
      | Some (CloudflareAPIError m) \<Rightarrow> log_msg (ApiErrorLine m) w
      | Some (OtherException n) \<Rightarrow> log_msg (UnexpectedErrorLine (OtherException n)) w)"

text \<open>
  The \<^verbatim>\<open>finally\<close> clause, \<^verbatim>\<open>completed\<close> already incremented. An exception raised here is
  caught by nothing: it leaves the loop and ends the worker.
\<close>

definition finally_item ::
  "env \<Rightarrow> nat \<Rightarrow> nat \<Rightarrow> real \<Rightarrow> real \<Rightarrow> world \<Rightarrow> error option \<times> world" where
  "finally_item E completed tot start t0 w =
     (case update_progress E completed tot start w of
        (Some e, w1) \<Rightarrow> (Some e, w1)
      | (None, w1) \<Rightarrow>
          (let (now, w2) = time_time E w1;
               elapsed = fl E (now - t0)
           in if elapsed < 1 then
                (case time_sleep (Finite (fl E (1 - elapsed))) w2 of
                   Inl e \<Rightarrow> (Some e, w2)
                 | Inr w3 \<Rightarrow> (None, w3))
              else (None, w2)))"

text \<open>The body of the loop for one domain.\<close>

definition process_item ::
  "env \<Rightarrow> client \<Rightarrow> real \<Rightarrow> nat \<Rightarrow> nat \<Rightarrow> nat \<Rightarrow> string \<Rightarrow> world \<Rightarrow> error option \<times> world" where
  "process_item E c start tot idx completed domain w =
     (let (t0, w1) = time_time E w;
          w2 = log_msg (LookingUp idx tot domain) w1;
          (exc, w3) = try_item E c domain w2;
          w4 = except_item exc w3
      in finally_item E (completed + 1) tot start t0 w4)"

fun worker_loop ::
  "env \<Rightarrow> client \<Rightarrow> real \<Rightarrow> nat \<Rightarrow> nat \<Rightarrow> nat \<Rightarrow> string list \<Rightarrow> world \<Rightarrow> error option \<times> world" where
  "worker_loop E c start tot idx completed [] w = (None, w)"
| "worker_loop E c start tot idx completed (domain # rest) w =
     (case process_item E c start tot idx completed domain w of
        (Some e, w1) \<Rightarrow> (Some e, w1)
      | (None, w1) \<Rightarrow> worker_loop E c start tot (idx + 1) (completed + 1) rest w1)"

definition delete_worker ::
  "env \<Rightarrow> client \<Rightarrow> string list \<Rightarrow> world \<Rightarrow> error option \<times> world" where
  "delete_worker E c domains w =
     (let (start, w0) = time_time E w
      in case worker_loop E c start (length domains) 1 0 domains w0 of
           (Some e, w1) \<Rightarrow> (Some e, w1)
         | (None, w1) \<Rightarrow>
             (None, (log_msg AllDone w1)\<lparr>labels := labels w1 @ [''Completed'']\<rparr>))"

section \<open>The entry point (\<^verbatim>\<open>App.on_delete\<close>)\<close>

text \<open>
  What the operator sees: one of the three message boxes, nothing when the
  confirmation is declined, or the start of the worker. The answer to the confirmation
  dialog is an argument. The worker thread is run to its end.
\<close>

datatype signal =
    InfoNoDomains
  | WarningTooManyDomains nat nat
  | ErrorMissingCredentials
  | Declined
  | WorkerStarted "string list"

definition on_delete ::
  "env \<Rightarrow> client option \<Rightarrow> bool \<Rightarrow> string \<Rightarrow> world \<Rightarrow> signal \<times> world" where
  "on_delete E cl confirm text w =
     (let domains = parse_domains text
      in if domains = [] then (InfoNoDomains, w)
         else if length domains > MAX_BATCH
           then (WarningTooManyDomains (length domains) MAX_BATCH, w)
         else
           (case cl of
              None \<Rightarrow> (ErrorMissingCredentials, w)
            | Some c \<Rightarrow>
                if \<not> confirm then (Declined, w)
                else
                  (WorkerStarted domains,
                   snd (delete_worker E c domains
                          (w\<lparr>logs := [StartingBulkDeletion], bar := [0],
                             labels := [''Starting...'']\<rparr>)))))"

section \<open>Notions used to state the properties\<close>

definition is_object :: "json \<Rightarrow> bool" where
  "is_object j = (case j of JObj kvs \<Rightarrow> True | _ \<Rightarrow> False)"

definition obj_member :: "json \<Rightarrow> string \<Rightarrow> json option" where
  \<comment> \<open>the member of an object, \<open>None\<close> when there is none or the value is no object\<close>
  "obj_member j key = (case j of JObj kvs \<Rightarrow> map_of kvs key | _ \<Rightarrow> None)"

text \<open>
  The text of one reported error entry, in the words of the specification: the code, a
  colon and the message, and the message alone when the code is absent (or null).
\<close>

definition entry_text :: "json \<Rightarrow> string" where
  "entry_text e =
     (let msg = py_str (case obj_member e ''message'' of Some m \<Rightarrow> m | None \<Rightarrow> JNull)
      in case obj_member e ''code'' of
           None \<Rightarrow> msg
         | Some code \<Rightarrow> if code = JNull then msg else py_str code @ '': '' @ msg)"

text \<open>
  The error envelope of the provider: the \<^verbatim>\<open>errors\<close> member, when there is one and it is
  true, is a list of objects.
\<close>

definition errors_well_formed :: "json \<Rightarrow> bool" where
  "errors_well_formed data =
     (case obj_member data ''errors'' of
        None \<Rightarrow> True
      | Some errs \<Rightarrow>
          (if truthy errs then (case errs of JList es \<Rightarrow> list_all is_object es | _ \<Rightarrow> False)
           else True))"

definition success_flag :: "json \<Rightarrow> bool" where
  \<comment> \<open>the body is an object whose \<^verbatim>\<open>success\<close> member is true\<close>
  "success_flag data = (case obj_member data ''success'' of Some v \<Rightarrow> truthy v | None \<Rightarrow> False)"

definition composed_message :: "json \<Rightarrow> string" where
  \<comment> \<open>the entries joined, or the body written out when it reports none\<close>
  "composed_message data =
     (case obj_member data ''errors'' of
        None \<Rightarrow> py_str data
      | Some errs \<Rightarrow>
          (case errs of
             JList es \<Rightarrow> if es = [] then py_str data else join ''; '' (map entry_text es)
           | _ \<Rightarrow> py_str data))"




text \<open>
  The server answers the request number \<open>i\<close> (from 0) of a call that started in a world
  with the history \<open>hist\<close> and repeats the request \<open>rq\<close>.
\<close>

definition answer :: "env \<Rightarrow> request list \<Rightarrow> request \<Rightarrow> nat \<Rightarrow> event" where
  "answer E hist rq i = server E (hist @ replicate (Suc i) rq)"




text \<open>The outcome of an item, read off the log line that reports it.\<close>

datatype outcome = Deleted | NotFound | Failed string | Error error

fun outcome_of_line :: "log_line \<Rightarrow> outcome option" where
  "outcome_of_line NotFoundSkipping = Some NotFound"
| "outcome_of_line DeletedSuccessfully = Some Deleted"
| "outcome_of_line (FailedToDelete msg) = Some (Failed msg)"
| "outcome_of_line (ApiErrorLine m) = Some (Error (CloudflareAPIError m))"
| "outcome_of_line (UnexpectedErrorLine e) = Some (Error e)"
| "outcome_of_line StartingBulkDeletion = None"
| "outcome_of_line (LookingUp i n d) = None"
| "outcome_of_line (FoundZone z) = None"
| "outcome_of_line AllDone = None"

definition outcomes :: "log_line list \<Rightarrow> outcome list" where
  "outcomes ls = List.map_filter outcome_of_line ls"

fun lookup_of_line :: "log_line \<Rightarrow> (nat \<times> nat \<times> string) option" where
  "lookup_of_line (LookingUp i n d) = Some (i, n, d)"
| "lookup_of_line l = None"

definition lookups :: "log_line list \<Rightarrow> (nat \<times> nat \<times> string) list" where
  "lookups ls = List.map_filter lookup_of_line ls"

definition error_line :: "error \<Rightarrow> log_line" where
  \<comment> \<open>the line that reports an exception caught at the boundary of an item\<close>
  "error_line e =
     (case e of
        CloudflareAPIError m \<Rightarrow> ApiErrorLine m
      | OtherException n \<Rightarrow> UnexpectedErrorLine e)"

text \<open>
  The lines of one item: the line of its lookup, then either the one line of its outcome
  (not found, or an error), or the line of the zone found and the one line of its outcome
  (deleted, failed, or an error).
\<close>

definition outcome_without_zone :: "log_line \<Rightarrow> bool" where
  "outcome_without_zone l =
     (case outcome_of_line l of
        Some NotFound \<Rightarrow> True
      | Some (Error e) \<Rightarrow> True
      | _ \<Rightarrow> False)"

definition outcome_with_zone :: "log_line \<Rightarrow> bool" where
  "outcome_with_zone l =
     (case outcome_of_line l of
        Some Deleted \<Rightarrow> True
      | Some (Failed m) \<Rightarrow> True
      | Some (Error e) \<Rightarrow> True
      | _ \<Rightarrow> False)"

definition is_found :: "log_line \<Rightarrow> bool" where
  "is_found l = (case l of FoundZone z \<Rightarrow> True | _ \<Rightarrow> False)"

definition item_block :: "nat \<Rightarrow> nat \<Rightarrow> string \<Rightarrow> log_line list \<Rightarrow> bool" where
  "item_block n i d ls =
     (case ls of
        l1 # l2 # tl2 \<Rightarrow>
          l1 = LookingUp i n d
          \<and> (case tl2 of
               [] \<Rightarrow> outcome_without_zone l2
             | l3 # others \<Rightarrow> others = [] \<and> is_found l2 \<and> outcome_with_zone l3)
      | _ \<Rightarrow> False)"

text \<open>
  The blocks of a batch: the first block is that of the first domain with the index
  \<open>i\<close>, the next that of the second domain with the next index, and so on; there may be
  fewer blocks than domains.
\<close>

fun batch_blocks :: "nat \<Rightarrow> nat \<Rightarrow> string list \<Rightarrow> log_line list list \<Rightarrow> bool" where
  "batch_blocks n i ds [] = True"
| "batch_blocks n i [] (b # bs) = False"
| "batch_blocks n i (d # ds) (b # bs) = (item_block n i d b \<and> batch_blocks n (Suc i) ds bs)"

text \<open>
  The clause \<^verbatim>\<open>finally\<close> of an item raises nothing, in a batch of \<open>tot\<close> domains, when
  for every reading of the clock and every later one the estimated time computed from
  them can be written, and \<^verbatim>\<open>time.sleep\<close> accepts the rest of the second between them.
  Nothing is asked of the server.
\<close>

definition cleanup_safe :: "env \<Rightarrow> nat \<Rightarrow> bool" where
  "cleanup_safe E tot \<longleftrightarrow>
     (\<forall>m n k. m < n \<longrightarrow> 0 < k \<longrightarrow> k \<le> tot \<longrightarrow>
        (\<exists>s. format_eta E
                (py_int (fl E (fl E (fl E (clock E n - clock E m) / real k)
                                 * real_of_int (int tot - int k)))) = Inr s))
     \<and> (\<forall>m n. m < n \<longrightarrow> fl E (clock E n - clock E m) < 1
            \<longrightarrow> sleep_accepts (fl E (1 - fl E (clock E n - clock E m))))"

section \<open>Example runs\<close>

text \<open>
  A client made with a token and the default arguments, the world before anything
  happened, and servers that answer from a script: the request number \<open>n\<close> of the run
  gets the entry number \<open>n\<close> of the script, and every later one the last answer given.
\<close>

definition example_client :: client where
  "example_client =
     \<lparr>api_token = Some ''token'', email = None, api_key = None,
      base_url = ''https://api.cloudflare.com/client/v4'', timeout = 30, max_retries = 5\<rparr>"

definition empty_world :: world where
  "empty_world = \<lparr>reqs = [], sleeps = [], ticks = 0, logs = [], bar = [], labels = []\<rparr>"

definition reply :: "int \<Rightarrow> string option \<Rightarrow> string \<Rightarrow> json option \<Rightarrow> event" where
  "reply st hdr txt body =
     Responds \<lparr>status_code = st, retry_after = hdr, resp_text = txt, resp_json = body\<rparr>"

definition scripted :: "event list \<Rightarrow> event \<Rightarrow> request list \<Rightarrow> event" where
  "scripted script last_answer hist =
     (if 0 < length hist \<and> length hist \<le> length script then script ! (length hist - 1)
      else last_answer)"

definition two_digits :: "int \<Rightarrow> string" where
  "two_digits n = [digit_char (nat (n div 10 mod 10)), digit_char (nat (n mod 10))]"

definition minutes_seconds :: "int \<Rightarrow> error + string" where
  \<comment> \<open>the minutes and seconds of a number of seconds since the epoch, before it as well;
      on the platform of the examples a time further than \<open>2 ^ 55\<close> seconds from the epoch
      cannot be converted\<close>
  "minutes_seconds n =
     (if n < - (2 ^ 55) \<or> 2 ^ 55 < n then Inl (OtherException ''OverflowError'')
      else Inr (two_digits (n div 60 mod 60) @ '':'' @ two_digits (n mod 60)))"

definition example_env :: "(request list \<Rightarrow> event) \<Rightarrow> (nat \<Rightarrow> real) \<Rightarrow> env" where
  \<comment> \<open>of the strings the examples send in \<^verbatim>\<open>Retry-After\<close>, \<^verbatim>\<open>float\<close> reads \<^verbatim>\<open>7\<close> and
      \<^verbatim>\<open>1e10\<close> and refuses the others; the clock readings of the examples are such that
      the arithmetic on them is exact\<close>
  "example_env srv clk =
     \<lparr>server = srv,
      py_float = (\<lambda>s. if s = ''7'' then Some (Finite 7)
                       else if s = ''1e10'' then Some (Finite 10000000000)
                       else None),
      clock = clk,
      fl = (\<lambda>x. x),
      format_eta = minutes_seconds\<rparr>"

text \<open>
  A server for the examples of the worker. It lists, for the domain asked, one zone of
  that name, with the name itself as identifier; it fails to answer for \<^verbatim>\<open>boom.com\<close>
  (the connection breaks) and lists nothing for \<^verbatim>\<open>none.com\<close>; it deletes every zone but
  \<^verbatim>\<open>locked.com\<close>, which it refuses with the error 1003.
\<close>

definition zone_server :: "request list \<Rightarrow> event" where
  "zone_server hist =
     (let rq = last hist
      in if req_method rq = ''GET'' then
           (case req_params rq of
              Some ((k, JStr d) # ps) \<Rightarrow>
                if d = ''boom.com'' then Raises (OtherException ''ConnectionError'')
                else if d = ''none.com'' then reply 200 None [] (Some (JObj [(''result'', JList [])]))
                else reply 200 None []
                       (Some (JObj [(''result'', JList [JObj [(''id'', JStr d), (''name'', JStr d)]])]))
            | _ \<Rightarrow> reply 400 None [] None)
         else if req_url rq = base_url example_client @ ''/zones/locked.com'' then
           reply 200 None []
             (Some (JObj [(''success'', JBool False),
                          (''errors'', JList [JObj [(''code'', JInt 1003),
                                                    (''message'', JStr ''locked'')]])]))
         else reply 200 None [] (Some (JObj [(''success'', JBool True)])))"

section \<open>Properties of the parser\<close>








section \<open>Properties of the error message\<close>

lemma format_loop_objects:
  "list_all is_object es \<Longrightarrow> format_loop es parts = Inr (parts @ map entry_text es)"
proof (induction es arbitrary: parts)
  case Nil
  show ?case by simp
next
  case (Cons e es)
  from Cons.prems obtain kvs where e: "e = JObj kvs"
    by (cases e) (simp_all add: is_object_def)
  from Cons.prems have rest: "list_all is_object es" by simp
  show ?case
    unfolding e
    by (simp add: dict_get_def entry_text_def obj_member_def Cons.IH [OF rest]
        split: option.splits)
qed

lemma format_loop_not_object:
  "\<not> list_all is_object es \<Longrightarrow> \<exists>e. format_loop es parts = Inl e"
proof (induction es arbitrary: parts)
  case Nil
  then show ?case by simp
next
  case (Cons x xs)
  show ?case
  proof (cases "is_object x")
    case True
    then obtain kvs where x: "x = JObj kvs"
      by (cases x) (simp_all add: is_object_def)
    from True Cons.prems have "\<not> list_all is_object xs" by simp
    from Cons.IH [OF this] show ?thesis
      unfolding x by (simp add: dict_get_def)
  next
    case False
    then show ?thesis
      by (cases x) (simp_all add: is_object_def dict_get_def)
  qed
qed

lemma format_error_message_well_formed:
  "errors_well_formed data \<Longrightarrow> format_error_message data st = Inr (composed_message data)"
  by (cases data)
     (auto simp: errors_well_formed_def format_error_message_def composed_message_def
        obj_member_def py_iter_def format_loop_objects
        split: option.splits json.splits if_splits)

lemma format_error_message_malformed:
  "\<not> errors_well_formed data \<Longrightarrow> \<exists>e. format_error_message data st = Inl e"
proof -
  assume a: "\<not> errors_well_formed data"
  then obtain kvs errs where d: "data = JObj kvs" and e: "map_of kvs ''errors'' = Some errs"
    and t: "truthy errs"
    by (cases data) (auto simp: errors_well_formed_def obj_member_def split: option.splits if_splits)
  show ?thesis
  proof (cases errs)
    case (JList es)
    with a d e t have "\<not> list_all is_object es"
      by (simp add: errors_well_formed_def obj_member_def)
    from format_loop_not_object [OF this, of "[]"] show ?thesis
      using d e t JList by (auto simp: format_error_message_def py_iter_def)
  next
    case (JStr s)
    with t obtain ch cs where "s = ch # cs" by (cases s) auto
    then show ?thesis using d e t JStr
      by (simp add: format_error_message_def py_iter_def dict_get_def)
  next
    case (JObj ms)
    with t obtain m ms' where "ms = m # ms'" by (cases ms) auto
    then show ?thesis using d e t JObj
      by (simp add: format_error_message_def py_iter_def dict_get_def)
  qed (use d e t in \<open>simp_all add: format_error_message_def py_iter_def\<close>)
qed

section \<open>Properties of the transport client\<close>

lemma request_loop_success:
  assumes "answer E (reqs w) (build_request c meth rpath params js) 0 = Responds resp"
    and "status_code resp \<noteq> 429" and "resp_ok resp" and "resp_json resp = Some data"
  shows "request_loop E c meth rpath params js retry backoff w
         = (Inr data, w\<lparr>reqs := reqs w @ [build_request c meth rpath params js]\<rparr>)"
  using assms by (subst request_loop.simps) (simp add: answer_def Let_def)

lemma request_loop_failure:
  assumes "answer E (reqs w) (build_request c meth rpath params js) 0 = Responds resp"
    and "status_code resp \<noteq> 429" and "\<not> resp_ok resp"
  shows "request_loop E c meth rpath params js retry backoff w
         = (case format_error_message (error_data resp) (status_code resp) of
              Inl e \<Rightarrow> Inl e
            | Inr message \<Rightarrow>
                Inl (CloudflareAPIError
                  (''HTTP '' @ str_int (status_code resp) @ '' for '' @ meth @ '' '' @ rpath
                     @ '': '' @ message)),
            w\<lparr>reqs := reqs w @ [build_request c meth rpath params js]\<rparr>)"
  using assms by (subst request_loop.simps) (simp add: answer_def Let_def split: sum.splits)

lemma request_loop_raises:
  assumes "answer E (reqs w) (build_request c meth rpath params js) 0 = Raises e"
  shows "request_loop E c meth rpath params js retry backoff w
         = (Inl e, w\<lparr>reqs := reqs w @ [build_request c meth rpath params js]\<rparr>)"
  using assms by (subst request_loop.simps) (simp add: answer_def Let_def)
















lemma errors_well_formed_unparsed:
  "resp_json resp = None \<Longrightarrow> errors_well_formed (error_data resp)"
  by (simp add: errors_well_formed_def error_data_def obj_member_def is_object_def)

lemma composed_message_unparsed:
  "resp_json resp = None \<Longrightarrow> composed_message (error_data resp) = resp_text resp"
  by (simp add: composed_message_def error_data_def obj_member_def entry_text_def join_def
      py_str_def)

text \<open>
  C6, as the code has it. A response whose status is an error for \<^verbatim>\<open>requests\<close> (400 to
  599) and is not 429 is never retried: the client sends the one request, sleeps nothing
  and raises. When the body is no JSON, or a JSON value whose \<^verbatim>\<open>errors\<close> member is
  missing, false or a list of objects, it raises \<open>CloudflareAPIError\<close> with the status,
  the method, the path and the composed message. The composed message joins the
  reported entries with a semicolon and a blank, each entry written code, colon,
  message, or the message alone when it has no code; a body that is no JSON gives the
  raw text of the response as the only entry, and a body that reports no entry is
  written out whole.
\<close>

theorem request_fails_without_retry:
  assumes rq: "rq = build_request c meth rpath params js"
    and a: "answer E (reqs w) rq 0 = Responds resp"
    and st: "status_code resp \<noteq> 429"
    and nok: "400 \<le> status_code resp \<and> status_code resp < 600"
  shows "(\<exists>e. request E c meth rpath params js w = (Inl e, w\<lparr>reqs := reqs w @ [rq]\<rparr>))
       \<and> (errors_well_formed (error_data resp)
            \<longrightarrow> request E c meth rpath params js w
                 = (Inl (CloudflareAPIError
                      (''HTTP '' @ str_int (status_code resp) @ '' for '' @ meth @ '' '' @ rpath
                         @ '': '' @ composed_message (error_data resp))),
                    w\<lparr>reqs := reqs w @ [rq]\<rparr>))
       \<and> (resp_json resp = None
            \<longrightarrow> errors_well_formed (error_data resp)
                \<and> composed_message (error_data resp) = resp_text resp)
       \<and> (\<forall>d es. resp_json resp = Some d \<and> obj_member d ''errors'' = Some (JList es) \<and> es \<noteq> []
            \<longrightarrow> composed_message (error_data resp) = join ''; '' (map entry_text es))
       \<and> (\<forall>d. resp_json resp = Some d
                \<and> (obj_member d ''errors'' = None \<or> obj_member d ''errors'' = Some (JList []))
            \<longrightarrow> composed_message (error_data resp) = py_str d)
       \<and> (\<forall>m. entry_text (JObj [(''message'', JStr m)]) = m)
       \<and> (\<forall>code m. code \<noteq> JNull
            \<longrightarrow> entry_text (JObj [(''code'', code), (''message'', JStr m)])
                 = py_str code @ '': '' @ m)"
proof (intro conjI allI impI)
  from nok have nok': "\<not> resp_ok resp" by (simp add: resp_ok_def)
  note f = request_loop_failure [OF a [unfolded rq] st nok', of 0 1]
  show "\<exists>e. request E c meth rpath params js w = (Inl e, w\<lparr>reqs := reqs w @ [rq]\<rparr>)"
    unfolding request_def f rq by (simp split: sum.splits)
  show "request E c meth rpath params js w
         = (Inl (CloudflareAPIError
              (''HTTP '' @ str_int (status_code resp) @ '' for '' @ meth @ '' '' @ rpath
                 @ '': '' @ composed_message (error_data resp))),
            w\<lparr>reqs := reqs w @ [rq]\<rparr>)"
    if wf: "errors_well_formed (error_data resp)"
    using f by (simp add: request_def rq format_error_message_well_formed [OF wf])
next
  assume "resp_json resp = None"
  then show "errors_well_formed (error_data resp)"
    by (rule errors_well_formed_unparsed)
next
  assume "resp_json resp = None"
  then show "composed_message (error_data resp) = resp_text resp"
    by (rule composed_message_unparsed)
next
  fix d es
  assume "resp_json resp = Some d \<and> obj_member d ''errors'' = Some (JList es) \<and> es \<noteq> []"
  then show "composed_message (error_data resp) = join ''; '' (map entry_text es)"
    by (simp add: composed_message_def error_data_def)
next
  fix d
  assume "resp_json resp = Some d
                \<and> (obj_member d ''errors'' = None \<or> obj_member d ''errors'' = Some (JList []))"
  then show "composed_message (error_data resp) = py_str d"
    by (auto simp: composed_message_def error_data_def)
next
  fix m show "entry_text (JObj [(''message'', JStr m)]) = m"
    by (simp add: entry_text_def obj_member_def py_str_def)
next
  fix code m assume "code \<noteq> JNull"
  then show "entry_text (JObj [(''code'', code), (''message'', JStr m)])
                 = py_str code @ '': '' @ m"
    by (simp add: entry_text_def obj_member_def py_str_def)
qed

theorem request_fails_without_retry_witness:
  "request (example_env (scripted []
              (reply 403 None []
                 (Some (JObj [(''success'', JBool False),
                              (''errors'', JList [JObj [(''code'', JInt 9109),
                                                        (''message'', JStr ''Invalid access token'')],
                                                  JObj [(''message'', JStr ''denied'')]])]))))
              (\<lambda>n. 0))
     example_client ''GET'' ''/zones'' None None empty_world
   = (Inl (CloudflareAPIError ''HTTP 403 for GET /zones: 9109: Invalid access token; denied''),
      empty_world\<lparr>reqs := [build_request example_client ''GET'' ''/zones'' None None]\<rparr>)
   \<and> request (example_env (scripted [] (reply 502 None ''Bad Gateway'' None)) (\<lambda>n. 0))
     example_client ''GET'' ''/zones'' None None empty_world
   = (Inl (CloudflareAPIError ''HTTP 502 for GET /zones: Bad Gateway''),
      empty_world\<lparr>reqs := [build_request example_client ''GET'' ''/zones'' None None]\<rparr>)"
proof -
  let ?body = "JObj [(''success'', JBool False),
                     (''errors'', JList [JObj [(''code'', JInt 9109),
                                               (''message'', JStr ''Invalid access token'')],
                                         JObj [(''message'', JStr ''denied'')]])]"
  let ?r1 = "\<lparr>status_code = 403, retry_after = None, resp_text = [], resp_json = Some ?body\<rparr>"
  let ?r2 = "\<lparr>status_code = 502, retry_after = None, resp_text = ''Bad Gateway'',
              resp_json = None\<rparr>"
  let ?E1 = "example_env (scripted [] (Responds ?r1)) (\<lambda>n. 0)"
  let ?E2 = "example_env (scripted [] (Responds ?r2)) (\<lambda>n. 0)"
  note defs = answer_def example_env_def scripted_def reply_def empty_world_def
  note msg = composed_message_def error_data_def obj_member_def entry_text_def join_def
    py_str_def str_int_def digits_nat.simps digit_char_def
  have a1: "answer ?E1 (reqs empty_world) (build_request example_client ''GET'' ''/zones'' None None) 0
            = Responds ?r1"
    by (simp add: defs)
  have wf1: "errors_well_formed (error_data ?r1)"
    by (simp add: errors_well_formed_def error_data_def obj_member_def is_object_def)
  have a2: "answer ?E2 (reqs empty_world) (build_request example_client ''GET'' ''/zones'' None None) 0
            = Responds ?r2"
    by (simp add: defs)
  have wf2: "errors_well_formed (error_data ?r2)"
    by (simp add: errors_well_formed_def error_data_def obj_member_def is_object_def)
  from request_fails_without_retry [OF refl a1, THEN conjunct2, THEN conjunct1] wf1
  have c1: "request ?E1 example_client ''GET'' ''/zones'' None None empty_world
   = (Inl (CloudflareAPIError ''HTTP 403 for GET /zones: 9109: Invalid access token; denied''),
      empty_world\<lparr>reqs := [build_request example_client ''GET'' ''/zones'' None None]\<rparr>)"
    by (simp add: msg empty_world_def)
  from request_fails_without_retry [OF refl a2, THEN conjunct2, THEN conjunct1] wf2
  have c2: "request ?E2 example_client ''GET'' ''/zones'' None None empty_world
   = (Inl (CloudflareAPIError ''HTTP 502 for GET /zones: Bad Gateway''),
      empty_world\<lparr>reqs := [build_request example_client ''GET'' ''/zones'' None None]\<rparr>)"
    by (simp add: msg empty_world_def)
  from c1 c2 show ?thesis by (simp add: reply_def)
qed

text \<open>
  The claim C6 fails as it is written. A response with the status 500 whose body
  reports the entry \<^verbatim>\<open>"boom"\<close>, a string and no object, makes \<open>format_error_message\<close> raise
  \<^verbatim>\<open>AttributeError\<close>, so the call raises that and no \<open>CloudflareAPIError\<close>. A response with
  the status 304, which is no success status and no error for \<^verbatim>\<open>requests\<close>, raises nothing:
  its parsed body is returned.
\<close>

theorem request_failure_not_api_error:
  "request (example_env (scripted []
              (reply 500 None [] (Some (JObj [(''errors'', JList [JStr ''boom''])]))))
              (\<lambda>n. 0))
     example_client ''GET'' ''/zones'' None None empty_world
   = (Inl (OtherException ''AttributeError''),
      empty_world\<lparr>reqs := [build_request example_client ''GET'' ''/zones'' None None]\<rparr>)
   \<and> request (example_env (scripted [] (reply 304 None [] (Some (JObj [])))) (\<lambda>n. 0))
     example_client ''GET'' ''/zones'' None None empty_world
   = (Inr (JObj []),
      empty_world\<lparr>reqs := [build_request example_client ''GET'' ''/zones'' None None]\<rparr>)"
  by (simp add: example_env_def scripted_def reply_def request_def
      request_loop.simps [of _ _ _ _ _ _ 0] Let_def resp_ok_def error_data_def
      format_error_message_def py_iter_def dict_get_def empty_world_def)

section \<open>Properties of the deletion operation\<close>

lemma delete_zone_on_body:
  assumes a: "answer E (reqs w) (build_request c ''DELETE'' (''/zones/'' @ py_str zone_id) None None) 0
              = Responds resp"
    and st: "200 \<le> status_code resp" "status_code resp < 300"
    and body: "resp_json resp = Some body"
  shows "delete_zone E c zone_id w
         = (if success_flag body then Inr (True, ''Deleted'')
            else (case format_error_message body 200 of
                    Inl e \<Rightarrow> Inl e
                  | Inr msg \<Rightarrow> Inr (False, msg)),
            w\<lparr>reqs := reqs w
                 @ [build_request c ''DELETE'' (''/zones/'' @ py_str zone_id) None None]\<rparr>)"
proof -
  from st have ok: "status_code resp \<noteq> 429" "resp_ok resp"
    by (simp_all add: resp_ok_def)
  have flag: "success_flag body
    = (case body of
         JObj kvs \<Rightarrow> (case map_of kvs ''success'' of Some v \<Rightarrow> truthy v | None \<Rightarrow> False)
       | _ \<Rightarrow> False)"
    by (cases body) (simp_all add: success_flag_def obj_member_def)
  show ?thesis
    unfolding delete_zone_def request_def
      request_loop_success [OF a ok body, of 0 1] flag
    by (simp split: sum.splits)
qed

text \<open>
  C5, as the code has it. When the answer to the DELETE request has a 2xx status and a
  body whose \<^verbatim>\<open>success\<close> is false and whose \<^verbatim>\<open>errors\<close> member is missing, false or a list
  of objects, \<open>delete_zone\<close> does not raise: it returns the flag false and the message
  composed by \<open>format_error_message\<close>, the function that composes the message of the
  transport client for a failed response with the same body. For the body with the one
  entry of code 1003 and message \<^verbatim>\<open>locked\<close> the message is \<^verbatim>\<open>1003: locked\<close>.
\<close>

theorem delete_zone_reports_logical_failure:
  assumes a: "answer E (reqs w) (build_request c ''DELETE'' (''/zones/'' @ py_str zone_id) None None) 0
              = Responds resp"
    and st: "200 \<le> status_code resp" "status_code resp < 300"
    and body: "resp_json resp = Some body"
    and flag: "obj_member body ''success'' = Some (JBool False)"
    and wf: "errors_well_formed body"
  shows "fst (delete_zone E c zone_id w) = Inr (False, composed_message body)
       \<and> (\<forall>failed :: response. resp_json failed = Some body
            \<longrightarrow> format_error_message (error_data failed) (status_code failed)
                 = Inr (composed_message body))
       \<and> composed_message
           (JObj [(''success'', JBool False),
                  (''errors'', JList [JObj [(''code'', JInt 1003), (''message'', JStr ''locked'')]])])
         = ''1003: locked''"
proof (intro conjI allI impI)
  from flag have "\<not> success_flag body" by (simp add: success_flag_def)
  then show "fst (delete_zone E c zone_id w) = Inr (False, composed_message body)"
    by (simp add: delete_zone_on_body [OF a st body] format_error_message_well_formed [OF wf])
next
  fix failed :: response assume "resp_json failed = Some body"
  then show "format_error_message (error_data failed) (status_code failed)
                 = Inr (composed_message body)"
    by (simp add: error_data_def format_error_message_well_formed [OF wf])
next
  show "composed_message
           (JObj [(''success'', JBool False),
                  (''errors'', JList [JObj [(''code'', JInt 1003), (''message'', JStr ''locked'')]])])
         = ''1003: locked''"
    by (simp add: composed_message_def obj_member_def entry_text_def join_def
      py_str_def str_int_def digits_nat.simps digit_char_def)
qed

theorem delete_zone_reports_logical_failure_witness:
  "fst (delete_zone
          (example_env (scripted []
             (reply 200 None []
                (Some (JObj [(''success'', JBool False),
                             (''errors'', JList [JObj [(''code'', JInt 1003),
                                                       (''message'', JStr ''locked'')]])]))))
             (\<lambda>n. 0))
          example_client (JStr ''z1'') empty_world)
   = Inr (False, ''1003: locked'')"
proof -
  let ?body = "JObj [(''success'', JBool False),
                     (''errors'', JList [JObj [(''code'', JInt 1003),
                                               (''message'', JStr ''locked'')]])]"
  let ?r = "\<lparr>status_code = 200, retry_after = None, resp_text = [], resp_json = Some ?body\<rparr>"
  let ?E = "example_env (scripted [] (Responds ?r)) (\<lambda>n. 0)"
  have a: "answer ?E (reqs empty_world)
             (build_request example_client ''DELETE'' (''/zones/'' @ py_str (JStr ''z1'')) None None) 0
           = Responds ?r"
    by (simp add: answer_def example_env_def scripted_def empty_world_def)
  have wf: "errors_well_formed ?body"
    by (simp add: errors_well_formed_def obj_member_def is_object_def)
  have flag: "obj_member ?body ''success'' = Some (JBool False)"
    by (simp add: obj_member_def)
  from delete_zone_reports_logical_failure [OF a _ _ _ flag wf, THEN conjunct1]
       delete_zone_reports_logical_failure [OF a _ _ _ flag wf, THEN conjunct2, THEN conjunct2]
  show ?thesis by (simp add: reply_def)
qed

text \<open>
  The claim C5 fails as it is written: a 200 response whose body has \<^verbatim>\<open>success\<close> false and
  reports the entry \<^verbatim>\<open>"locked"\<close>, a string and no object, makes \<open>delete_zone\<close> raise
  \<^verbatim>\<open>AttributeError\<close>.
\<close>

theorem delete_zone_raises_on_string_entry:
  "fst (delete_zone
          (example_env (scripted []
             (reply 200 None []
                (Some (JObj [(''success'', JBool False),
                             (''errors'', JList [JStr ''locked''])]))))
             (\<lambda>n. 0))
          example_client (JStr ''z1'') empty_world)
   = Inl (OtherException ''AttributeError'')"
  by (simp add: delete_zone_def example_env_def scripted_def reply_def request_def
      request_loop.simps [of _ _ _ _ _ _ 0] Let_def resp_ok_def
      format_error_message_def py_iter_def dict_get_def empty_world_def)

text \<open>
  C10, as the code has it. For a 2xx response with a parsed body, \<open>delete_zone\<close> returns
  the flag true when the body is an object whose \<^verbatim>\<open>success\<close> is true. Otherwise (the body
  is no object, or its \<^verbatim>\<open>success\<close> is missing or not true) it returns the flag false and
  the composed message exactly when the \<^verbatim>\<open>errors\<close> member is missing, false or a list of
  objects, and raises in every other case. The message is the body written out by
  \<^verbatim>\<open>str\<close> when the body is no object or has no \<^verbatim>\<open>errors\<close> member or an empty list of them.
  The one request is sent in every case.
\<close>

theorem delete_zone_total_on_well_formed_bodies:
  assumes a: "answer E (reqs w) (build_request c ''DELETE'' (''/zones/'' @ py_str zone_id) None None) 0
              = Responds resp"
    and st: "200 \<le> status_code resp" "status_code resp < 300"
    and body: "resp_json resp = Some body"
  shows "(success_flag body \<longrightarrow> fst (delete_zone E c zone_id w) = Inr (True, ''Deleted''))
       \<and> (\<not> success_flag body \<and> errors_well_formed body
            \<longrightarrow> fst (delete_zone E c zone_id w) = Inr (False, composed_message body))
       \<and> (\<not> success_flag body \<and> \<not> errors_well_formed body
            \<longrightarrow> (\<exists>e. fst (delete_zone E c zone_id w) = Inl e))
       \<and> (\<not> is_object body \<longrightarrow> \<not> success_flag body \<and> errors_well_formed body
                                  \<and> composed_message body = py_str body)
       \<and> (obj_member body ''errors'' = None \<or> obj_member body ''errors'' = Some (JList [])
            \<longrightarrow> errors_well_formed body \<and> composed_message body = py_str body)
       \<and> snd (delete_zone E c zone_id w)
           = w\<lparr>reqs := reqs w
                 @ [build_request c ''DELETE'' (''/zones/'' @ py_str zone_id) None None]\<rparr>"
proof (intro conjI impI)
  note d = delete_zone_on_body [OF a st body]
  show "fst (delete_zone E c zone_id w) = Inr (True, ''Deleted'')" if "success_flag body"
    using that by (simp add: d)
  show "fst (delete_zone E c zone_id w) = Inr (False, composed_message body)"
    if "\<not> success_flag body \<and> errors_well_formed body"
    using that by (simp add: d format_error_message_well_formed)
  show "\<exists>e. fst (delete_zone E c zone_id w) = Inl e"
    if "\<not> success_flag body \<and> \<not> errors_well_formed body"
  proof -
    from that format_error_message_malformed [of body 200]
    obtain e where "format_error_message body 200 = Inl e" by blast
    with that show ?thesis by (simp add: d)
  qed
  show "\<not> success_flag body" if "\<not> is_object body"
    using that by (cases body) (simp_all add: is_object_def success_flag_def obj_member_def)
  show "errors_well_formed body" if "\<not> is_object body"
    using that by (cases body) (simp_all add: is_object_def errors_well_formed_def obj_member_def)
  show "composed_message body = py_str body" if "\<not> is_object body"
    using that by (cases body) (simp_all add: is_object_def composed_message_def obj_member_def)
  show "errors_well_formed body"
    if "obj_member body ''errors'' = None \<or> obj_member body ''errors'' = Some (JList [])"
    using that by (auto simp: errors_well_formed_def)
  show "composed_message body = py_str body"
    if "obj_member body ''errors'' = None \<or> obj_member body ''errors'' = Some (JList [])"
    using that by (auto simp: composed_message_def)
  show "snd (delete_zone E c zone_id w)
           = w\<lparr>reqs := reqs w
                 @ [build_request c ''DELETE'' (''/zones/'' @ py_str zone_id) None None]\<rparr>"
    by (simp add: d)
qed

theorem delete_zone_total_on_well_formed_bodies_witness:
  "fst (delete_zone
          (example_env (scripted [] (reply 200 None [] (Some (JList [JInt 1, JStr ''x''])))) (\<lambda>n. 0))
          example_client (JStr ''z1'') empty_world)
   = Inr (False, ''[1, 'x']'')
   \<and> fst (delete_zone
          (example_env (scripted [] (reply 200 None [] (Some (JObj [(''success'', JInt 1)])))) (\<lambda>n. 0))
          example_client (JStr ''z1'') empty_world)
   = Inr (True, ''Deleted'')
   \<and> fst (delete_zone
          (example_env (scripted [] (reply 200 None [] (Some (JObj [(''success'', JNull)])))) (\<lambda>n. 0))
          example_client (JStr ''z1'') empty_world)
   = Inr (False, ''{'success': None}'')"
proof -
  let ?b1 = "JList [JInt 1, JStr ''x'']"
  let ?b2 = "JObj [(''success'', JInt 1)]"
  let ?b3 = "JObj [(''success'', JNull)]"
  let ?R = "\<lambda>b. \<lparr>status_code = 200, retry_after = None, resp_text = [], resp_json = Some b\<rparr>"
  let ?E = "\<lambda>b. example_env (scripted [] (Responds (?R b))) (\<lambda>n. 0)"
  have a: "answer (?E b) (reqs empty_world)
             (build_request example_client ''DELETE'' (''/zones/'' @ py_str (JStr ''z1'')) None None) 0
           = Responds (?R b)" for b
    by (simp add: answer_def example_env_def scripted_def empty_world_def)
  note msg = composed_message_def obj_member_def py_str_def join_def repr_str_def repr_char_def
    str_int_def digits_nat.simps digit_char_def success_flag_def errors_well_formed_def
    is_object_def Let_def
  from delete_zone_total_on_well_formed_bodies [OF a [of ?b1], THEN conjunct2, THEN conjunct1]
  have c1: "fst (delete_zone (?E ?b1) example_client (JStr ''z1'') empty_world)
            = Inr (False, ''[1, 'x']'')"
    by (simp add: msg)
  from delete_zone_total_on_well_formed_bodies [OF a [of ?b2], THEN conjunct1]
  have c2: "fst (delete_zone (?E ?b2) example_client (JStr ''z1'') empty_world)
            = Inr (True, ''Deleted'')"
    by (simp add: msg)
  from delete_zone_total_on_well_formed_bodies [OF a [of ?b3], THEN conjunct2, THEN conjunct1]
  have c3: "fst (delete_zone (?E ?b3) example_client (JStr ''z1'') empty_world)
            = Inr (False, ''{'success': None}'')"
    by (simp add: msg)
  from c1 c2 c3 show ?thesis by (simp add: reply_def)
qed

text \<open>
  The claim C10 fails as it is written: \<open>delete_zone\<close> is not total over the parsed
  bodies. A 200 response whose body has no \<^verbatim>\<open>success\<close> member and the number 5 as its
  \<^verbatim>\<open>errors\<close> member makes it raise \<^verbatim>\<open>TypeError\<close>, the loop over the entries having nothing to
  run over.
\<close>

theorem delete_zone_raises_on_number_errors:
  "fst (delete_zone
          (example_env (scripted [] (reply 200 None [] (Some (JObj [(''errors'', JInt 5)]))))
             (\<lambda>n. 0))
          example_client (JStr ''z1'') empty_world)
   = Inl (OtherException ''TypeError'')"
  by (simp add: delete_zone_def example_env_def scripted_def reply_def request_def
      request_loop.simps [of _ _ _ _ _ _ 0] Let_def resp_ok_def
      format_error_message_def py_iter_def dict_get_def empty_world_def)

section \<open>Properties of the zone resolver\<close>








end
